theory Spec2Isabelle
  imports Complex_Main
begin

section \<open>The request handlers of the candidate evaluation API\<close>

text \<open>
  The development embeds the three POST handlers of \<^verbatim>\<open>mock_interview_app/main.py\<close>
  (\<^verbatim>\<open>langchain_questions\<close>, \<^verbatim>\<open>check_answers\<close>, \<^verbatim>\<open>complete_evaluation\<close>).
  The handlers are orchestration code: they validate the request, call PyMuPDF and the
  functions imported from \<^verbatim>\<open>api_request\<close>, and translate every failure into an
  \<^verbatim>\<open>HTTPException\<close>. The callees are parameters of the model (record \<open>env\<close>); every
  raise and every except clause of the handlers is a branch of it, and every call of a
  callee is recorded in the order in which it is made.
\<close>

subsection \<open>Python values\<close>

text \<open>
  The handlers are duck-typed: the body of \<^verbatim>\<open>/check-answers\<close> is any JSON object, and
  the values returned by the imported functions are used without a type check. One
  datatype holds them all. A dictionary is the list of its items in iteration order, with
  string keys; a dictionary built by Python never holds a key twice. A string is a list
  of characters, each read as one code point below 256.
\<close>

datatype pyfloat = Finite rat | PosInf | NegInf | NaN

datatype pyval =
    PNone
  | PBool bool
  | PInt int
  | PFloat pyfloat
  | PStr string
  | PList "pyval list"
  | PDict "(string \<times> pyval) list"

text \<open>Truth value testing: what \<^verbatim>\<open>if x\<close> and \<^verbatim>\<open>not x\<close> look at.\<close>

fun truthy :: "pyval \<Rightarrow> bool" where
  "truthy PNone = False"
| "truthy (PBool b) = b"
| "truthy (PInt i) = (i \<noteq> 0)"
| "truthy (PFloat x) = (x \<noteq> Finite 0)"
| "truthy (PStr s) = (s \<noteq> [])"
| "truthy (PList xs) = (xs \<noteq> [])"
| "truthy (PDict kvs) = (kvs \<noteq> [])"

fun type_name :: "pyval \<Rightarrow> string" where
  "type_name PNone = ''NoneType''"
| "type_name (PBool b) = ''bool''"
| "type_name (PInt i) = ''int''"
| "type_name (PFloat x) = ''float''"
| "type_name (PStr s) = ''str''"
| "type_name (PList xs) = ''list''"
| "type_name (PDict kvs) = ''dict''"

fun is_dict :: "pyval \<Rightarrow> bool" where
  "is_dict (PDict kvs) = True"
| "is_dict v = False"

fun is_str :: "pyval \<Rightarrow> bool" where
  "is_str (PStr s) = True"
| "is_str v = False"

fun items :: "pyval \<Rightarrow> (string \<times> pyval) list" where
  "items (PDict kvs) = kvs"
| "items v = []"

subsection \<open>Strings\<close>

definition quote :: "string \<Rightarrow> string" where
  "quote s = CHR 0x27 # s @ [CHR 0x27]"

fun digit :: "nat \<Rightarrow> char" where
  "digit n = ''0123456789'' ! n"

text \<open>The decimal rendering of a natural number, as an f-string prints a length.\<close>

fun str_nat :: "nat \<Rightarrow> string" where
  "str_nat n = (if n < 10 then [digit n] else str_nat (n div 10) @ [digit (n mod 10)])"

declare str_nat.simps [simp del]

text \<open>
  \<^verbatim>\<open>str.isspace\<close> on the code points below 256: tab to carriage return, the four
  separators 0x1C to 0x1F, the space, NEL (0x85) and the no-break space (0xA0).
\<close>

definition isspace :: "char \<Rightarrow> bool" where
  "isspace c = ((of_char c :: nat) \<in> set [9, 10, 11, 12, 13, 28, 29, 30, 31, 32, 133, 160])"

text \<open>\<^verbatim>\<open>s.strip()\<close>: leading and trailing whitespace removed.\<close>

definition strip :: "string \<Rightarrow> string" where
  "strip s = rev (dropWhile isspace (rev (dropWhile isspace s)))"

fun starts_with :: "string \<Rightarrow> string \<Rightarrow> bool" where
  "starts_with [] s = True"
| "starts_with (c # cs) [] = False"
| "starts_with (c # cs) (d # ds) = (c = d \<and> starts_with cs ds)"

text \<open>\<^verbatim>\<open>k in s\<close> for two strings: \<open>k\<close> occurs in \<open>s\<close> as a substring.\<close>

fun substring_of :: "string \<Rightarrow> string \<Rightarrow> bool" where
  "substring_of k [] = (k = [])"
| "substring_of k (c # s) = (starts_with k (c # s) \<or> substring_of k s)"

subsection \<open>Exceptions\<close>

text \<open>
  An exception other than \<^verbatim>\<open>HTTPException\<close> is its class and its \<^verbatim>\<open>str(e)\<close>. The
  classes are those that an except clause of the handlers tells apart and those that the
  handlers' own expressions raise. The texts of the latter are CPython's.
  \<open>JSONDecodeError\<close> is \<^verbatim>\<open>json.JSONDecodeError\<close>, a subclass of \<^verbatim>\<open>ValueError\<close>;
  \<open>ValueError\<close> stands for that class and its other subclasses; \<open>OtherError\<close> stands
  for every other class (\<^verbatim>\<open>RecursionError\<close> and the errors of PyMuPDF among them).
\<close>

datatype exn_class =
    ValueError
  | JSONDecodeError
  | EvaluationError
  | TypeError
  | AttributeError
  | KeyError
  | OtherError

text \<open>What a clause \<^verbatim>\<open>except ValueError\<close> catches: the class and its subclasses.\<close>

fun is_value_error :: "exn_class \<Rightarrow> bool" where
  "is_value_error ValueError = True"
| "is_value_error JSONDecodeError = True"
| "is_value_error c = False"

datatype pyerr = PyErr exn_class string

fun err_class :: "pyerr \<Rightarrow> exn_class" where
  "err_class (PyErr c m) = c"

fun err_str :: "pyerr \<Rightarrow> string" where
  "err_str (PyErr c m) = m"

text \<open>What a handler raises: an \<^verbatim>\<open>HTTPException(status_code, detail)\<close> or another exception.\<close>

datatype raised = HTTPException nat pyval | PyError pyerr

text \<open>
  What a handler returns: a \<^verbatim>\<open>JSONResponse(status_code, content)\<close>, or a value that
  FastAPI sends with status 200.
\<close>

datatype reply = JSONResponse nat pyval | Return pyval

subsection \<open>Operations of the handlers on Python values\<close>

text \<open>\<^verbatim>\<open>field in json_data\<close>, for a string \<open>field\<close>.\<close>

fun py_in :: "string \<Rightarrow> pyval \<Rightarrow> pyerr + bool" where
  "py_in k (PDict kvs) = Inr (k \<in> set (map fst kvs))"
| "py_in k (PList xs) = Inr (PStr k \<in> set xs)"
| "py_in k (PStr s) = Inr (substring_of k s)"
| "py_in k v =
     Inl (PyErr TypeError (''argument of type '' @ quote (type_name v) @ '' is not iterable''))"

text \<open>\<^verbatim>\<open>v[k]\<close>, for a string \<open>k\<close>.\<close>

fun py_getitem :: "pyval \<Rightarrow> string \<Rightarrow> pyerr + pyval" where
  "py_getitem (PDict kvs) k =
     (case map_of kvs k of
        None \<Rightarrow> Inl (PyErr KeyError (quote k))
      | Some v \<Rightarrow> Inr v)"
| "py_getitem (PList xs) k =
     Inl (PyErr TypeError ''list indices must be integers or slices, not str'')"
| "py_getitem (PStr s) k =
     Inl (PyErr TypeError (''string indices must be integers, not '' @ quote ''str''))"
| "py_getitem v k =
     Inl (PyErr TypeError (quote (type_name v) @ '' object is not subscriptable''))"

text \<open>\<^verbatim>\<open>len(v)\<close>.\<close>

fun py_len :: "pyval \<Rightarrow> pyerr + nat" where
  "py_len (PStr s) = Inr (length s)"
| "py_len (PList xs) = Inr (length xs)"
| "py_len (PDict kvs) = Inr (length kvs)"
| "py_len v =
     Inl (PyErr TypeError (''object of type '' @ quote (type_name v) @ '' has no len()''))"

text \<open>\<^verbatim>\<open>a.strip()\<close>: only a string has the method.\<close>

fun py_strip :: "pyval \<Rightarrow> pyerr + string" where
  "py_strip (PStr s) = Inr (strip s)"
| "py_strip v =
     Inl (PyErr AttributeError
           (quote (type_name v) @ '' object has no attribute '' @ quote ''strip''))"

subsection \<open>The callees\<close>

text \<open>
  \<open>json_loads\<close> is \<^verbatim>\<open>json.loads\<close>, which returns the decoded value or raises: a
  \<^verbatim>\<open>JSONDecodeError\<close> on a text that is no JSON, a plain \<^verbatim>\<open>ValueError\<close> on an integer
  literal of more digits than the interpreter converts, a \<^verbatim>\<open>RecursionError\<close> on a
  nesting that is too deep;
  \<open>fitz_open\<close> is \<^verbatim>\<open>fitz.open\<close> followed by \<^verbatim>\<open>page.get_text()\<close> on every page, so it
  gives the list of the page texts; \<open>http_str\<close> is \<^verbatim>\<open>str(e)\<close> of an
  \<^verbatim>\<open>HTTPException\<close>, which is Starlette's and differs between its versions; the others
  are the functions imported from \<^verbatim>\<open>api_request\<close>. None of them raises an
  \<^verbatim>\<open>HTTPException\<close>.
\<close>

type_synonym bytes = "char list"

record env =
  json_loads :: "string \<Rightarrow> pyerr + pyval"
  fitz_open :: "bytes \<Rightarrow> pyerr + string list"
  http_str :: "nat \<Rightarrow> pyval \<Rightarrow> string"
  prepare_prompt :: "string \<Rightarrow> pyval \<Rightarrow> pyval \<Rightarrow> pyval \<Rightarrow> pyerr + pyval"
  get_questions :: "pyval \<Rightarrow> pyerr + pyval"
  prepare_prompt_for_answercheck :: "pyval \<Rightarrow> pyerr + pyval"
  get_evaluation :: "pyval \<Rightarrow> pyerr + pyval"
  get_feedback_for_score :: "pyval \<Rightarrow> pyerr + pyval"
  evaluate_candidate ::
    "string \<Rightarrow> string \<Rightarrow> int \<Rightarrow> int \<Rightarrow> (string \<times> string) list \<Rightarrow> pyerr + pyval"

datatype call =
    Fitz_open
  | Prepare_prompt
  | Get_questions
  | Prepare_prompt_for_answercheck
  | Get_evaluation
  | Get_feedback_for_score
  | Evaluate_candidate

record upload_file =
  content_type :: "string option"
  filename :: "string option"
  contents :: bytes

subsection \<open>Running a handler\<close>

text \<open>
  A piece of a handler yields what it raises or its value, and the calls it has made. A
  raise ends the piece; the calls made before it stay recorded.
\<close>

type_synonym 'a run = "(raised + 'a) \<times> call list"

definition ok :: "'a \<Rightarrow> 'a run" where
  "ok x = (Inr x, [])"

definition raise :: "raised \<Rightarrow> 'a run" where
  "raise e = (Inl e, [])"

text \<open>An expression of the handler itself: no callee is involved.\<close>

definition eval :: "pyerr + 'a \<Rightarrow> 'a run" where
  "eval r = (case r of Inl e \<Rightarrow> (Inl (PyError e), []) | Inr x \<Rightarrow> (Inr x, []))"

text \<open>A call of a callee.\<close>

definition call :: "call \<Rightarrow> pyerr + 'a \<Rightarrow> 'a run" where
  "call c r = (case r of Inl e \<Rightarrow> (Inl (PyError e), [c]) | Inr x \<Rightarrow> (Inr x, [c]))"

text \<open>One statement after another.\<close>

definition bind :: "'a run \<Rightarrow> ('a \<Rightarrow> 'b run) \<Rightarrow> 'b run" where
  "bind m f =
     (case m of
        (Inl e, t) \<Rightarrow> (Inl e, t)
      | (Inr x, t) \<Rightarrow> (case f x of (r, t') \<Rightarrow> (r, t @ t')))"

text \<open>\<^verbatim>\<open>try: m except ...: h\<close>, where \<open>h\<close> re-raises what its clauses do not catch.\<close>

definition except :: "'a run \<Rightarrow> (raised \<Rightarrow> raised) \<Rightarrow> 'a run" where
  "except m h = (case m of (Inl e, t) \<Rightarrow> (Inl (h e), t) | (Inr x, t) \<Rightarrow> (Inr x, t))"

text \<open>\<^verbatim>\<open>str(e)\<close> of a caught exception.\<close>

fun str_raised :: "env \<Rightarrow> raised \<Rightarrow> string" where
  "str_raised env (HTTPException c d) = http_str env c d"
| "str_raised env (PyError e) = err_str e"

text \<open>
  The outermost clauses of every handler:
  \<^verbatim>\<open>except HTTPException: raise\<close> and
  \<^verbatim>\<open>except Exception as e: raise HTTPException(500, f"An unexpected error occurred: {str(e)}")\<close>.
\<close>

fun unexpected :: "raised \<Rightarrow> raised" where
  "unexpected (HTTPException c d) = HTTPException c d"
| "unexpected (PyError e) =
     HTTPException 500 (PStr (''An unexpected error occurred: '' @ err_str e))"

subsection \<open>The stages shared by the handlers\<close>

definition pdf_types :: "string list" where
  "pdf_types = [''application/pdf'', ''application/x-pdf'']"

text \<open>\<^verbatim>\<open>content_type not in ["application/pdf", "application/x-pdf"]\<close>, negated.\<close>

definition is_pdf :: "string option \<Rightarrow> bool" where
  "is_pdf ct = (case ct of None \<Rightarrow> False | Some t \<Rightarrow> t \<in> set pdf_types)"

definition validate_file_type :: "upload_file \<Rightarrow> unit run" where
  "validate_file_type file =
     (if is_pdf (content_type file) then ok ()
      else raise (HTTPException 415 (PStr ''File is not a valid PDF'')))"

text \<open>
  The extraction block, the same in \<^verbatim>\<open>langchain_questions\<close> and
  \<^verbatim>\<open>complete_evaluation\<close>. The \<^verbatim>\<open>HTTPException\<close> with status 422 is raised inside the
  \<^verbatim>\<open>try\<close> whose only clause is \<^verbatim>\<open>except Exception as e\<close>; \<^verbatim>\<open>HTTPException\<close> is a
  subclass of \<^verbatim>\<open>Exception\<close>, so the clause catches it as it catches an error of
  PyMuPDF.
\<close>

definition failed_to_process :: "env \<Rightarrow> raised \<Rightarrow> raised" where
  "failed_to_process env e =
     HTTPException 500 (PStr (''Failed to process PDF: '' @ str_raised env e))"

definition extract_text :: "env \<Rightarrow> bytes \<Rightarrow> string run" where
  "extract_text env pdf_data =
     except
       (bind (call Fitz_open (fitz_open env pdf_data)) (\<lambda>pdf_doc.
          let resume_text = concat pdf_doc
          in if strip resume_text = []
             then raise (HTTPException 422
                    (PStr ''Could not extract text from PDF. The file may be empty or corrupted.''))
             else ok resume_text))
       (failed_to_process env)"

subsection \<open>The handler of \<^verbatim>\<open>POST /questions\<close>\<close>

definition required_fields :: "string list" where
  "required_fields = [''techStack'', ''difficultyLevel'', ''questionCount'']"

text \<open>
  The loop \<^verbatim>\<open>for field in required_fields: if field not in json_data: raise ...\<close>.
  A \<^verbatim>\<open>TypeError\<close> of the membership test is not a \<^verbatim>\<open>JSONDecodeError\<close> and leaves the
  block.
\<close>

fun check_required_fields :: "pyval \<Rightarrow> string list \<Rightarrow> raised + unit" where
  "check_required_fields json_data [] = Inr ()"
| "check_required_fields json_data (field # rest) =
     (case py_in field json_data of
        Inl e \<Rightarrow> Inl (PyError e)
      | Inr present \<Rightarrow>
          if present then check_required_fields json_data rest
          else Inl (HTTPException 400 (PStr (''Missing required field: '' @ field))))"

text \<open>\<^verbatim>\<open>json.loads(data) if data else {}\<close>: absent and empty data are not decoded.\<close>

definition load_data :: "env \<Rightarrow> string option \<Rightarrow> pyerr + pyval" where
  "load_data env data =
     (case data of
        None \<Rightarrow> Inr (PDict [])
      | Some s \<Rightarrow> if s = [] then Inr (PDict []) else json_loads env s)"

text \<open>
  The clause \<^verbatim>\<open>except json.JSONDecodeError\<close>, the only one of the block: every other
  exception leaves the block as it is.
\<close>

fun invalid_json :: "raised \<Rightarrow> raised" where
  "invalid_json (PyError e) =
     (if err_class e = JSONDecodeError
      then HTTPException 400 (PStr ''Invalid JSON data format'')
      else PyError e)"
| "invalid_json (HTTPException c d) = HTTPException c d"

text \<open>The block that parses the JSON data (lines 74 to 94).\<close>

definition parse_json_data :: "env \<Rightarrow> string option \<Rightarrow> raised + pyval" where
  "parse_json_data env data =
     (case (case load_data env data of
              Inl e \<Rightarrow> Inl (PyError e)
            | Inr json_data \<Rightarrow>
                if truthy json_data
                then (case check_required_fields json_data required_fields of
                        Inl e \<Rightarrow> Inl e
                      | Inr u \<Rightarrow> Inr json_data)
                else Inl (HTTPException 400
                       (PStr ''Missing required parameters in JSON data'')))
      of Inl e \<Rightarrow> Inl (invalid_json e)
       | Inr json_data \<Rightarrow> Inr json_data)"

definition lift :: "raised + 'a \<Rightarrow> 'a run" where
  "lift r = (r, [])"

definition opt_str :: "string option \<Rightarrow> pyval" where
  "opt_str x = (case x of None \<Rightarrow> PNone | Some s \<Rightarrow> PStr s)"

text \<open>The clauses \<^verbatim>\<open>except ValueError\<close> and \<^verbatim>\<open>except Exception\<close> of the generation block.\<close>

fun failed_to_generate :: "env \<Rightarrow> raised \<Rightarrow> raised" where
  "failed_to_generate env (PyError e) =
     (if is_value_error (err_class e) then HTTPException 400 (PStr (err_str e))
      else HTTPException 500 (PStr (''Failed to generate questions: '' @ err_str e)))"
| "failed_to_generate env (HTTPException c d) =
     HTTPException 500 (PStr (''Failed to generate questions: '' @ http_str env c d))"

text \<open>
  The generation block (lines 122 to 155). The arguments of \<^verbatim>\<open>prepare_prompt\<close> are
  evaluated in the order in which they are written; \<^verbatim>\<open>len(prompt)\<close> is evaluated for
  the log line.
\<close>

definition generate_questions :: "env \<Rightarrow> pyval \<Rightarrow> pyval \<Rightarrow> string \<Rightarrow> reply run" where
  "generate_questions env processed_data json_data resume_text =
     except
       (bind (eval (py_getitem json_data ''techStack'')) (\<lambda>tech_stack.
        bind (eval (py_getitem json_data ''difficultyLevel'')) (\<lambda>difficulty.
        bind (eval (py_getitem json_data ''questionCount'')) (\<lambda>question_count.
        bind (call Prepare_prompt
                (prepare_prompt env resume_text tech_stack difficulty question_count)) (\<lambda>prompt.
        bind (eval (py_len prompt)) (\<lambda>prompt_length.
        bind (call Get_questions (get_questions env prompt)) (\<lambda>questions.
          if truthy questions
          then bind (eval (py_len questions)) (\<lambda>count.
                 ok (Return (PDict
                       [(''metadata'', processed_data),
                        (''questions'', questions),
                        (''count'', PInt (int count))])))
          else ok (JSONResponse 204 (PDict
                     [(''message'',
                       PStr ''No questions could be generated. Try adjusting parameters.'')])))))))))
       (failed_to_generate env)"

definition langchain_questions :: "env \<Rightarrow> upload_file \<Rightarrow> string option \<Rightarrow> reply run" where
  "langchain_questions env file data =
     except
       (bind (validate_file_type file) (\<lambda>u.
        let pdf_data = contents file
        in bind (lift (parse_json_data env data)) (\<lambda>json_data.
           let processed_data = PDict
                 [(''file_size'', PInt (int (length pdf_data))),
                  (''file_name'', opt_str (filename file)),
                  (''json_data'', json_data)]
           in bind (extract_text env pdf_data) (\<lambda>resume_text.
              generate_questions env processed_data json_data resume_text))))
       unexpected"

subsection \<open>The handler of \<^verbatim>\<open>POST /check-answers\<close>\<close>

text \<open>\<^verbatim>\<open>not a or not a.strip()\<close>: the method is looked up only on a truthy value.\<close>

definition is_empty_answer :: "pyval \<Rightarrow> pyerr + bool" where
  "is_empty_answer a =
     (if truthy a
      then (case py_strip a of Inl e \<Rightarrow> Inl e | Inr s \<Rightarrow> Inr (s = []))
      else Inr True)"

text \<open>
  The comprehension \<^verbatim>\<open>[q for q, a in json_data.items() if not a or not a.strip()]\<close>:
  the items are visited in order, and the first exception ends it.
\<close>

fun empty_answers :: "(string \<times> pyval) list \<Rightarrow> pyerr + string list" where
  "empty_answers [] = Inr []"
| "empty_answers ((q, a) # rest) =
     (case is_empty_answer a of
        Inl e \<Rightarrow> Inl e
      | Inr b \<Rightarrow>
          (case empty_answers rest of
             Inl e \<Rightarrow> Inl e
           | Inr qs \<Rightarrow> Inr (if b then q # qs else qs)))"

text \<open>The clause \<^verbatim>\<open>except EvaluationError\<close> of the evaluation block.\<close>

fun evaluation_failed :: "raised \<Rightarrow> raised" where
  "evaluation_failed (PyError e) =
     (if err_class e = EvaluationError
      then HTTPException 500 (PStr (''Evaluation failed: '' @ err_str e))
      else PyError e)"
| "evaluation_failed (HTTPException c d) = HTTPException c d"

definition check_answers :: "env \<Rightarrow> pyval \<Rightarrow> reply run" where
  "check_answers env json_data =
     except
       (if is_dict json_data
        then if truthy json_data
          then bind (eval (empty_answers (items json_data))) (\<lambda>empty.
            if empty = []
            then except
              (bind (call Prepare_prompt_for_answercheck
                       (prepare_prompt_for_answercheck env json_data)) (\<lambda>prompt.
               bind (call Get_evaluation (get_evaluation env prompt)) (\<lambda>score.
               bind (call Get_feedback_for_score (get_feedback_for_score env score)) (\<lambda>feedback.
                 ok (Return (PDict
                       [(''score'', score),
                        (''feedback'', feedback),
                        (''evaluated_answers'', PInt (int (length (items json_data)))),
                        (''status'', PStr ''success'')]))))))
              evaluation_failed
            else raise (HTTPException 400
                   (PStr (''Empty answers provided for '' @ str_nat (length empty)
                          @ '' questions''))))
          else raise (HTTPException 400 (PStr ''No question-answer pairs provided''))
        else raise (HTTPException 400
               (PStr ''Data must be a dictionary mapping questions to answers'')))
       unexpected"

subsection \<open>The handler of \<^verbatim>\<open>POST /complete-evaluation\<close>\<close>

text \<open>
  FastAPI hands \<^verbatim>\<open>difficulty\<close> and \<^verbatim>\<open>question_count\<close> over as integers, so
  \<^verbatim>\<open>int(difficulty)\<close> returns its argument; the \<^verbatim>\<open>ValueError\<close> of a value out of range
  is caught by the clause \<^verbatim>\<open>except ValueError\<close> next to it.
\<close>

definition on_value_error :: "raised \<Rightarrow> raised \<Rightarrow> raised" where
  "on_value_error h e =
     (case e of
        PyError err \<Rightarrow> if is_value_error (err_class err) then h else e
      | HTTPException c d \<Rightarrow> e)"

definition check_range :: "int \<Rightarrow> int \<Rightarrow> int \<Rightarrow> string \<Rightarrow> string \<Rightarrow> int run" where
  "check_range lo hi n inner detail =
     except
       (if lo \<le> n \<and> n \<le> hi then ok n
        else raise (PyError (PyErr ValueError inner)))
       (on_value_error (HTTPException 400 (PStr detail)))"

text \<open>The input validation (lines 278 to 309), which follows the extraction.\<close>

definition validate_inputs ::
  "string \<Rightarrow> int \<Rightarrow> int \<Rightarrow> (string \<times> string) list \<Rightarrow> (int \<times> int) run" where
  "validate_inputs tech_stack difficulty question_count answers =
     (if tech_stack = [] \<or> strip tech_stack = []
      then raise (HTTPException 400 (PStr ''Tech stack cannot be empty''))
      else
        bind (check_range 1 5 difficulty ''Difficulty must be between 1 and 5''
                ''Difficulty must be an integer between 1 and 5'') (\<lambda>difficulty.
        bind (check_range 1 20 question_count ''Question count must be between 1 and 20''
                ''Question count must be an integer between 1 and 20'') (\<lambda>question_count.
          if answers = []
          then raise (HTTPException 400 (PStr ''No answers provided for evaluation''))
          else ok (difficulty, question_count))))"

definition complete_evaluation ::
  "env \<Rightarrow> upload_file \<Rightarrow> string \<Rightarrow> int \<Rightarrow> int \<Rightarrow> (string \<times> string) list \<Rightarrow> reply run" where
  "complete_evaluation env file tech_stack difficulty question_count answers =
     except
       (bind (validate_file_type file) (\<lambda>u.
        let pdf_data = contents file
        in bind (extract_text env pdf_data) (\<lambda>resume_text.
           bind (validate_inputs tech_stack difficulty question_count answers) (\<lambda>(d, n).
           bind (call Evaluate_candidate
                   (evaluate_candidate env resume_text tech_stack d n answers)) (\<lambda>result.
           bind (eval (py_getitem result ''status'')) (\<lambda>status.
             if status = PStr ''error''
             then bind (eval (py_getitem result ''error'')) (\<lambda>detail.
                    raise (HTTPException 500 detail))
             else ok (Return result)))))))
       unexpected"

text \<open>The status code that the client sees.\<close>

fun status_code :: "raised + reply \<Rightarrow> nat" where
  "status_code (Inl (HTTPException c d)) = c"
| "status_code (Inl (PyError e)) = 500"
| "status_code (Inr (JSONResponse c v)) = c"
| "status_code (Inr (Return v)) = 200"

subsection \<open>A concrete environment\<close>

text \<open>
  Callees with fixed answers, on which the handlers can be run: a JSON decoder for the
  texts used below (it takes every other text for no JSON, and reports it as
  \<^verbatim>\<open>json.loads\<close> reports the text \<^verbatim>\<open>not json\<close>), a PDF reader that finds two pages of
  text, no text at all, or a broken file, and evaluation functions that always answer
  the same.
\<close>

definition demo_loads :: "string \<Rightarrow> pyerr + pyval" where
  \<open>demo_loads s =
     (if s = ''{}'' then Inr (PDict [])
      else if s = ''{"techStack": "Python", "difficultyLevel": 3, "questionCount": 5}''
      then Inr (PDict [(''techStack'', PStr ''Python''), (''difficultyLevel'', PInt 3),
                       (''questionCount'', PInt 5)])
      else if s = ''{"techStack": "Python", "questionCount": 5}''
      then Inr (PDict [(''techStack'', PStr ''Python''), (''questionCount'', PInt 5)])
      else if s = ''5'' then Inr (PInt 5)
      else Inl (PyErr JSONDecodeError ''Expecting value: line 1 column 1 (char 0)''))\<close>

definition demo_fitz :: "bytes \<Rightarrow> pyerr + string list" where
  "demo_fitz b =
     (if b = ''%PDF resume'' then Inr [''Experienced Python developer. '', ''Ten years.'']
      else if b = ''%PDF scanned image'' then Inr [[], '' '']
      else Inl (PyErr OtherError ''cannot open broken document''))"

definition starlette_str :: "nat \<Rightarrow> pyval \<Rightarrow> string" where
  "starlette_str c d = str_nat c @ '': '' @ (case d of PStr s \<Rightarrow> s | _ \<Rightarrow> [])"

definition demo_env :: env where
  "demo_env = \<lparr>
     json_loads = demo_loads,
     fitz_open = demo_fitz,
     http_str = starlette_str,
     prepare_prompt = (\<lambda>resume tech_stack difficulty question_count.
        Inr (PStr (''Ask questions about this resume: '' @ resume))),
     get_questions = (\<lambda>prompt.
        Inr (PList [PStr ''What is a closure?'', PStr ''What is a decorator?''])),
     prepare_prompt_for_answercheck = (\<lambda>json_data. Inr (PStr ''Score these answers'')),
     get_evaluation = (\<lambda>prompt. Inr (PInt 7)),
     get_feedback_for_score = (\<lambda>score. Inr (PStr ''Good understanding'')),
     evaluate_candidate = (\<lambda>resume tech_stack difficulty question_count answers.
        Inr (PDict [(''status'', PStr ''success''), (''score'', PInt 7)]))
   \<rparr>"

definition resume_pdf :: upload_file where
  "resume_pdf = \<lparr>content_type = Some ''application/pdf'', filename = Some ''cv.pdf'',
                 contents = ''%PDF resume''\<rparr>"

definition scanned_pdf :: upload_file where
  "scanned_pdf = \<lparr>content_type = Some ''application/pdf'', filename = Some ''scan.pdf'',
                  contents = ''%PDF scanned image''\<rparr>"

definition png_file :: upload_file where
  "png_file = \<lparr>content_type = Some ''image/png'', filename = Some ''cv.png'',
               contents = ''PNG''\<rparr>"

definition full_data :: string where
  \<open>full_data = ''{"techStack": "Python", "difficultyLevel": 3, "questionCount": 5}''\<close>

definition partial_data :: string where
  \<open>partial_data = ''{"techStack": "Python", "questionCount": 5}''\<close>

definition broken_pdf :: upload_file where
  "broken_pdf = \<lparr>content_type = Some ''application/x-pdf'', filename = None,
                 contents = ''not a PDF at all''\<rparr>"

text \<open>The same environment with an evaluation module that produces no question.\<close>

definition silent_env :: env where
  "silent_env = demo_env\<lparr>get_questions := (\<lambda>prompt. Inr (PList []))\<rparr>"

text \<open>The same environment with a combined procedure that reports an error.\<close>

definition failing_env :: env where
  "failing_env = demo_env\<lparr>evaluate_candidate :=
     (\<lambda>resume tech_stack difficulty question_count answers.
        Inr (PDict [(''status'', PStr ''error''), (''error'', PStr ''backend unavailable'')]))\<rparr>"

definition closure_answer :: "(string \<times> string) list" where
  "closure_answer = [(''What is a closure?'', ''A function with its environment'')]"

text \<open>
  An answer counts as empty when it is a string of which nothing is left after trimming,
  or a value other than a string that is falsy (\<^verbatim>\<open>null\<close>, \<^verbatim>\<open>false\<close>, \<^verbatim>\<open>0\<close>, \<^verbatim>\<open>[]\<close>,
  \<^verbatim>\<open>{}\<close>).
\<close>

fun empty_value :: "pyval \<Rightarrow> bool" where
  "empty_value (PStr s) = (strip s = [])"
| "empty_value v = (\<not> truthy v)"

section \<open>Properties of the handlers\<close>

lemmas run_defs = ok_def raise_def eval_def call_def bind_def except_def lift_def

lemmas demo_defs =
  demo_env_def demo_loads_def demo_fitz_def starlette_str_def resume_pdf_def
  scanned_pdf_def png_file_def broken_pdf_def full_data_def partial_data_def

subsection \<open>Whitespace\<close>

lemma dropWhile_all_iff: "(\<forall>x \<in> set (dropWhile P xs). P x) \<longleftrightarrow> dropWhile P xs = []"
proof
  assume all: "\<forall>x \<in> set (dropWhile P xs). P x"
  show "dropWhile P xs = []"
  proof (rule ccontr)
    assume ne: "dropWhile P xs \<noteq> []"
    then have "hd (dropWhile P xs) \<in> set (dropWhile P xs)" by simp
    with all have "P (hd (dropWhile P xs))" by blast
    moreover from ne have "\<not> P (hd (dropWhile P xs))" by (rule hd_dropWhile)
    ultimately show False by contradiction
  qed
next
  assume e: "dropWhile P xs = []"
  show "\<forall>x \<in> set (dropWhile P xs). P x" unfolding e by simp
qed

text \<open>Nothing is left of a string after trimming exactly when it is all whitespace.\<close>

lemma strip_Nil_iff: "strip s = [] \<longleftrightarrow> (\<forall>c \<in> set s. isspace c)"
proof -
  have "strip s = [] \<longleftrightarrow> (\<forall>x \<in> set (dropWhile isspace s). isspace x)"
    by (simp add: strip_def dropWhile_eq_Nil_conv)
  also have "\<dots> \<longleftrightarrow> dropWhile isspace s = []" by (rule dropWhile_all_iff)
  also have "\<dots> \<longleftrightarrow> (\<forall>c \<in> set s. isspace c)" by (simp add: dropWhile_eq_Nil_conv)
  finally show ?thesis .
qed

lemma strip_Nil [simp]: "strip [] = []"
  by (simp add: strip_def)

subsection \<open>The extraction block\<close>

lemma extract_text_ok:
  "fitz_open env b = Inr pages \<Longrightarrow> strip (concat pages) \<noteq> [] \<Longrightarrow>
   extract_text env b = (Inr (concat pages), [Fitz_open])"
  by (simp add: extract_text_def run_defs)

text \<open>The status 422 raised for a document without text leaves the block as a 500.\<close>

lemma extract_text_blank:
  "fitz_open env b = Inr pages \<Longrightarrow> strip (concat pages) = [] \<Longrightarrow>
   extract_text env b =
     (Inl (HTTPException 500 (PStr (''Failed to process PDF: '' @ http_str env 422
        (PStr ''Could not extract text from PDF. The file may be empty or corrupted.'')))),
      [Fitz_open])"
  by (simp add: extract_text_def failed_to_process_def run_defs)

lemma extract_text_error:
  "fitz_open env b = Inl e \<Longrightarrow>
   extract_text env b =
     (Inl (HTTPException 500 (PStr (''Failed to process PDF: '' @ err_str e))), [Fitz_open])"
  by (simp add: extract_text_def failed_to_process_def run_defs)

lemma extract_text_cases:
  obtains (ok) resume where "extract_text env b = (Inr resume, [Fitz_open])" "strip resume \<noteq> []"
  | (failed) d where "extract_text env b = (Inl (HTTPException 500 d), [Fitz_open])"
proof (cases "fitz_open env b")
  case (Inl e)
  then show ?thesis using extract_text_error failed by blast
next
  case (Inr pages)
  show ?thesis
  proof (cases "strip (concat pages) = []")
    case True
    with Inr show ?thesis using extract_text_blank failed by blast
  next
    case False
    with Inr show ?thesis using extract_text_ok ok by blast
  qed
qed

subsection \<open>The required fields\<close>

lemma check_required_fields_dict:
  "check_required_fields (PDict kvs) fs =
     (case filter (\<lambda>f. f \<notin> fst ` set kvs) fs of
        [] \<Rightarrow> Inr ()
      | f # rest \<Rightarrow> Inl (HTTPException 400 (PStr (''Missing required field: '' @ f))))"
  by (induction fs) auto

lemma py_in_answers:
  "py_in f v = Inr b \<Longrightarrow> \<exists>b'. py_in g v = Inr b'"
  by (cases v) auto

lemma check_required_fields_lacks:
  "filter (\<lambda>f. py_in f v = Inr False) fs = f # rest \<Longrightarrow>
   check_required_fields v fs =
     Inl (HTTPException 400 (PStr (''Missing required field: '' @ f)))"
proof (induction fs)
  case Nil
  then show ?case by simp
next
  case (Cons g fs)
  show ?case
  proof (cases "py_in g v = Inr False")
    case True
    with Cons.prems show ?thesis by simp
  next
    case False
    with Cons.prems have rest: "filter (\<lambda>f. py_in f v = Inr False) fs = f # rest" by simp
    then have "f \<in> set (filter (\<lambda>f. py_in f v = Inr False) fs)" by simp
    then have "py_in f v = Inr False" by simp
    then obtain b where "py_in g v = Inr b" using py_in_answers by blast
    with False have "py_in g v = Inr True" by simp
    with Cons.IH [OF rest] show ?thesis by simp
  qed
qed

text \<open>The block that parses the JSON data, by what the request holds.\<close>

lemma parse_json_data_absent:
  "data = None \<or> data = Some [] \<Longrightarrow>
   parse_json_data env data =
     Inl (HTTPException 400 (PStr ''Missing required parameters in JSON data''))"
  by (auto simp: parse_json_data_def load_data_def)

lemma parse_json_data_raises:
  "s \<noteq> [] \<Longrightarrow> json_loads env s = Inl e \<Longrightarrow>
   parse_json_data env (Some s) = Inl (invalid_json (PyError e))"
  by (simp add: parse_json_data_def load_data_def)

lemma parse_json_data_falsy:
  "s \<noteq> [] \<Longrightarrow> json_loads env s = Inr v \<Longrightarrow> \<not> truthy v \<Longrightarrow>
   parse_json_data env (Some s) =
     Inl (HTTPException 400 (PStr ''Missing required parameters in JSON data''))"
  by (simp add: parse_json_data_def load_data_def)

lemma parse_json_data_lacks:
  "s \<noteq> [] \<Longrightarrow> json_loads env s = Inr v \<Longrightarrow> truthy v \<Longrightarrow>
   filter (\<lambda>f. py_in f v = Inr False) required_fields = f # rest \<Longrightarrow>
   parse_json_data env (Some s) =
     Inl (HTTPException 400 (PStr (''Missing required field: '' @ f)))"
  by (simp add: parse_json_data_def load_data_def check_required_fields_lacks)

lemma parse_json_data_not_iterable:
  "s \<noteq> [] \<Longrightarrow> json_loads env s = Inr v \<Longrightarrow> truthy v \<Longrightarrow>
   py_in ''techStack'' v = Inl e \<Longrightarrow>
   parse_json_data env (Some s) = Inl (PyError e) \<and> err_class e = TypeError"
  by (cases v) (auto simp: parse_json_data_def load_data_def required_fields_def)

text \<open>
  In \<^verbatim>\<open>/questions\<close>, whatever the block that parses the JSON data raises ends the
  request, through the outermost clauses, before any callee is called; and data that
  pass the block reach the extraction.
\<close>

lemma questions_data_rejected:
  "is_pdf (content_type file) \<Longrightarrow> parse_json_data env data = Inl e \<Longrightarrow>
   langchain_questions env file data = (Inl (unexpected e), [])"
  by (simp add: langchain_questions_def validate_file_type_def run_defs)

lemma questions_data_accepted:
  "is_pdf (content_type file) \<Longrightarrow> parse_json_data env data = Inr json_data \<Longrightarrow>
   \<exists>trace. snd (langchain_questions env file data) = Fitz_open # trace"
  by (auto simp: langchain_questions_def validate_file_type_def extract_text_def Let_def
      run_defs split: sum.splits prod.splits)

text \<open>
  Data on which \<^verbatim>\<open>json.loads\<close> raises another exception than \<^verbatim>\<open>JSONDecodeError\<close>, and
  data that decode to a truthy value without a membership test (a number, \<^verbatim>\<open>true\<close>),
  end the request with the status 500.
\<close>

lemma questions_decoder_error:
  "is_pdf (content_type file) \<Longrightarrow> s \<noteq> [] \<Longrightarrow> json_loads env s = Inl e \<Longrightarrow>
   err_class e \<noteq> JSONDecodeError \<Longrightarrow>
   langchain_questions env file (Some s) =
     (Inl (HTTPException 500 (PStr (''An unexpected error occurred: '' @ err_str e))), [])"
  by (simp add: questions_data_rejected parse_json_data_raises)

lemma questions_data_not_iterable:
  "is_pdf (content_type file) \<Longrightarrow> s \<noteq> [] \<Longrightarrow> json_loads env s = Inr v \<Longrightarrow> truthy v \<Longrightarrow>
   py_in ''techStack'' v = Inl e \<Longrightarrow>
   langchain_questions env file (Some s) =
     (Inl (HTTPException 500 (PStr (''An unexpected error occurred: '' @ err_str e))), [])"
  using parse_json_data_not_iterable [of s env v e]
  by (simp add: questions_data_rejected)

subsection \<open>The emptiness check of the answers\<close>

lemma is_empty_answer_raises:
  "truthy a \<Longrightarrow> \<not> is_str a \<Longrightarrow> \<exists>m. is_empty_answer a = Inl (PyErr AttributeError m)"
  by (cases a) (simp_all add: is_empty_answer_def)

lemma is_empty_answer_error:
  "is_empty_answer a = Inl e \<Longrightarrow> \<exists>m. e = PyErr AttributeError m"
  by (cases a) (auto simp: is_empty_answer_def split: if_splits)

lemma is_empty_answer_value:
  "(truthy a \<longrightarrow> is_str a) \<Longrightarrow> is_empty_answer a = Inr (empty_value a)"
  by (cases a) (auto simp: is_empty_answer_def)

lemma empty_answers_raises:
  "(q, a) \<in> set kvs \<Longrightarrow> truthy a \<Longrightarrow> \<not> is_str a \<Longrightarrow>
   \<exists>m. empty_answers kvs = Inl (PyErr AttributeError m)"
proof (induction kvs)
  case Nil
  then show ?case by simp
next
  case (Cons p kvs)
  obtain q' a' where p: "p = (q', a')" by (cases p)
  show ?case
  proof (cases "is_empty_answer a'")
    case (Inl e)
    then show ?thesis using p is_empty_answer_error by fastforce
  next
    case (Inr b)
    with Cons.prems p have "(q, a) \<in> set kvs"
      using is_empty_answer_raises by fastforce
    with Cons have "\<exists>m. empty_answers kvs = Inl (PyErr AttributeError m)" by blast
    with Inr p show ?thesis by auto
  qed
qed

lemma empty_answers_filter:
  "\<forall>(q, a) \<in> set kvs. truthy a \<longrightarrow> is_str a \<Longrightarrow>
   empty_answers kvs = Inr (map fst (filter (\<lambda>(q, a). empty_value a) kvs))"
  by (induction kvs) (auto simp: is_empty_answer_value)

section \<open>The claims\<close>

subsection \<open>C5: a file that is not a PDF\<close>

text \<open>
  C5. For every uploaded file whose content type is not in the PDF allow-list (a missing
  content type included), both \<^verbatim>\<open>/questions\<close> and \<^verbatim>\<open>/complete-evaluation\<close> answer 415
  and call no callee: neither the text extractor nor any function of the evaluation
  module.
\<close>

theorem non_pdf_rejected_without_calls:
  assumes "\<not> is_pdf (content_type file)"
  shows "langchain_questions env file data =
           (Inl (HTTPException 415 (PStr ''File is not a valid PDF'')), [])
       \<and> complete_evaluation env file tech_stack difficulty question_count answers =
           (Inl (HTTPException 415 (PStr ''File is not a valid PDF'')), [])"
  using assms
  by (simp add: langchain_questions_def complete_evaluation_def validate_file_type_def
      run_defs)

theorem non_pdf_rejected_without_calls_witness:
  "\<not> is_pdf (content_type png_file)
   \<and> langchain_questions demo_env png_file (Some full_data) =
       (Inl (HTTPException 415 (PStr ''File is not a valid PDF'')), [])
   \<and> complete_evaluation demo_env png_file ''Python'' 3 5 [(''What is a closure?'', ''A function'')] =
       (Inl (HTTPException 415 (PStr ''File is not a valid PDF'')), [])"
proof -
  have h: "\<not> is_pdf (content_type png_file)"
    by (simp add: is_pdf_def pdf_types_def png_file_def)
  from non_pdf_rejected_without_calls [OF h] show ?thesis using h by simp
qed

subsection \<open>C10: an answer that is truthy and not a string\<close>

text \<open>
  C10. For every answer map sent to \<^verbatim>\<open>/check-answers\<close> that holds a value which is
  truthy and not a string (a number, for example), the emptiness check calls
  \<^verbatim>\<open>strip\<close> on that value; the exception is turned by the outermost clause into a 500,
  not into a 400, and no callee has been called.
\<close>

theorem non_string_answer_gives_500:
  assumes "(q, a) \<in> set kvs" and "truthy a" and "\<not> is_str a"
  shows "\<exists>m. check_answers env (PDict kvs) =
           (Inl (HTTPException 500 (PStr (''An unexpected error occurred: '' @ m))), [])"
proof -
  from assms obtain m where m: "empty_answers kvs = Inl (PyErr AttributeError m)"
    using empty_answers_raises by blast
  from assms(1) have "kvs \<noteq> []" by auto
  with m have "check_answers env (PDict kvs) =
      (Inl (HTTPException 500 (PStr (''An unexpected error occurred: '' @ m))), [])"
    by (simp add: check_answers_def run_defs)
  then show ?thesis ..
qed

theorem non_string_answer_gives_500_witness:
  "(''How many bits are in a byte?'', PInt 8) \<in> set [(''How many bits are in a byte?'', PInt 8)]
   \<and> truthy (PInt 8) \<and> \<not> is_str (PInt 8)
   \<and> (\<exists>m. check_answers demo_env (PDict [(''How many bits are in a byte?'', PInt 8)]) =
           (Inl (HTTPException 500 (PStr (''An unexpected error occurred: '' @ m))), []))"
proof -
  have h1: "(''How many bits are in a byte?'', PInt 8) \<in> set [(''How many bits are in a byte?'', PInt 8)]"
    by simp
  have h2: "truthy (PInt 8)" by simp
  have h3: "\<not> is_str (PInt 8)" by simp
  from non_string_answer_gives_500 [OF h1 h2 h3, of demo_env] show ?thesis
    using h1 h2 h3 by blast
qed

subsection \<open>C3: empty answers\<close>

text \<open>
  C3, as stated: every answer map with at least one empty or whitespace-only value gets
  a 400 that reports the number of such values. The map below holds an empty answer and a
  number: the handler answers 500.
\<close>

theorem empty_and_numeric_answers_give_500:
  "empty_value (PStr [])
   \<and> check_answers demo_env
       (PDict [(''What is a closure?'', PStr []), (''How many bits are in a byte?'', PInt 8)]) =
     (Inl (HTTPException 500 (PStr (''An unexpected error occurred: '' @ quote ''int''
        @ '' object has no attribute '' @ quote ''strip''))), [])"
  by (simp add: check_answers_def is_empty_answer_def run_defs)

text \<open>
  C3, amended. For every answer map sent to \<^verbatim>\<open>/check-answers\<close> in which no value is
  truthy and not a string, and in which at least one value is empty (a string that is
  empty or whitespace only, or a falsy value), the handler answers 400, the detail gives
  the exact number of empty values, and no prompt is built and no evaluation call made.
\<close>

theorem empty_answers_counted:
  assumes "\<forall>(q, a) \<in> set kvs. truthy a \<longrightarrow> is_str a"
      and "\<exists>(q, a) \<in> set kvs. empty_value a"
  shows "check_answers env (PDict kvs) =
           (Inl (HTTPException 400 (PStr (''Empty answers provided for ''
              @ str_nat (length (filter (\<lambda>(q, a). empty_value a) kvs)) @ '' questions''))), [])"
proof -
  let ?empty = "filter (\<lambda>(q, a). empty_value a) kvs"
  from assms(1) have e: "empty_answers kvs = Inr (map fst ?empty)"
    by (rule empty_answers_filter)
  from assms(2) have ne: "?empty \<noteq> []"
    by (auto simp: filter_empty_conv)
  then have "kvs \<noteq> []" by auto
  with e ne show ?thesis
    by (simp add: check_answers_def run_defs)
qed

theorem empty_answers_counted_witness:
  "check_answers demo_env
     (PDict [(''What is a closure?'', PStr []), (''What is a decorator?'', PStr ''a wrapper''),
             (''What is a generator?'', PStr ''  ''), (''What is a metaclass?'', PNone)]) =
   (Inl (HTTPException 400 (PStr ''Empty answers provided for 3 questions'')), [])"
proof -
  let ?kvs = "[(''What is a closure?'', PStr []), (''What is a decorator?'', PStr ''a wrapper''),
               (''What is a generator?'', PStr ''  ''), (''What is a metaclass?'', PNone)]"
  have h1: "\<forall>(q, a) \<in> set ?kvs. truthy a \<longrightarrow> is_str a" by simp
  have h2: "\<exists>(q, a) \<in> set ?kvs. empty_value a" by simp
  have n: "length (filter (\<lambda>(q, a). empty_value a) ?kvs) = 3"
    by (simp add: strip_def isspace_def)
  from empty_answers_counted [OF h1 h2, of demo_env] show ?thesis
    unfolding n by (simp add: str_nat.simps)
qed

subsection \<open>C4: a required field is missing\<close>

text \<open>
  C4, as stated: every JSON payload of \<^verbatim>\<open>/questions\<close> that lacks one of the keys
  \<^verbatim>\<open>techStack\<close>, \<^verbatim>\<open>difficultyLevel\<close>, \<^verbatim>\<open>questionCount\<close> gets a 400 whose detail names
  the missing field. The empty object lacks all three; the handler answers 400 with a
  detail in which none of the three names occurs.
\<close>

theorem empty_object_names_no_field:
  "langchain_questions demo_env resume_pdf (Some ''{}'') =
     (Inl (HTTPException 400 (PStr ''Missing required parameters in JSON data'')), [])
   \<and> \<not> substring_of ''techStack'' ''Missing required parameters in JSON data''
   \<and> \<not> substring_of ''difficultyLevel'' ''Missing required parameters in JSON data''
   \<and> \<not> substring_of ''questionCount'' ''Missing required parameters in JSON data''"
  by (simp add: langchain_questions_def validate_file_type_def is_pdf_def pdf_types_def
      parse_json_data_def load_data_def run_defs demo_defs)

text \<open>
  C4, amended. For every JSON payload sent to \<^verbatim>\<open>/questions\<close> with a PDF file that
  decodes to a non-empty JSON object lacking at least one of the keys \<^verbatim>\<open>techStack\<close>,
  \<^verbatim>\<open>difficultyLevel\<close>, \<^verbatim>\<open>questionCount\<close>, the handler answers 400 with the detail
  \<^verbatim>\<open>Missing required field: f\<close>, where \<open>f\<close> is the first of the three keys, in this
  order, that the object lacks; no callee is called.
\<close>

theorem first_missing_field_named:
  assumes "is_pdf (content_type file)"
      and "s \<noteq> []" and "json_loads env s = Inr (PDict kvs)" and "kvs \<noteq> []"
      and "filter (\<lambda>f. f \<notin> fst ` set kvs) required_fields = f # rest"
  shows "langchain_questions env file (Some s) =
           (Inl (HTTPException 400 (PStr (''Missing required field: '' @ f))), [])"
proof -
  from assms(5) have "check_required_fields (PDict kvs) required_fields =
      Inl (HTTPException 400 (PStr (''Missing required field: '' @ f)))"
    by (simp add: check_required_fields_dict)
  with assms(2-4) have "parse_json_data env (Some s) =
      Inl (HTTPException 400 (PStr (''Missing required field: '' @ f)))"
    by (simp add: parse_json_data_def load_data_def)
  with assms(1) show ?thesis
    by (simp add: langchain_questions_def validate_file_type_def run_defs)
qed

theorem first_missing_field_named_witness:
  "is_pdf (content_type resume_pdf) \<and> partial_data \<noteq> []
   \<and> json_loads demo_env partial_data =
       Inr (PDict [(''techStack'', PStr ''Python''), (''questionCount'', PInt 5)])
   \<and> filter (\<lambda>f. f \<notin> fst ` set [(''techStack'', PStr ''Python''), (''questionCount'', PInt 5)])
        required_fields = [''difficultyLevel'']
   \<and> langchain_questions demo_env resume_pdf (Some partial_data) =
       (Inl (HTTPException 400 (PStr ''Missing required field: difficultyLevel'')), [])"
proof -
  let ?kvs = "[(''techStack'', PStr ''Python''), (''questionCount'', PInt 5)]"
  have h1: "is_pdf (content_type resume_pdf)"
    by (simp add: is_pdf_def pdf_types_def resume_pdf_def)
  have h2: "partial_data \<noteq> []" by (simp add: partial_data_def)
  have h3: "json_loads demo_env partial_data = Inr (PDict ?kvs)"
    by (simp add: demo_env_def demo_loads_def partial_data_def)
  have h4: "?kvs \<noteq> []" by simp
  have h5: "filter (\<lambda>f. f \<notin> fst ` set ?kvs) required_fields = [''difficultyLevel'']"
    by (simp add: required_fields_def)
  from first_missing_field_named [OF h1 h2 h3 h4 h5] show ?thesis
    using h1 h2 h3 h5 by simp
qed

subsection \<open>C6: the reply of \<^verbatim>\<open>/check-answers\<close>\<close>

text \<open>
  C6. For every request to \<^verbatim>\<open>/check-answers\<close> that passes the validation (a non-empty
  map without an empty answer), whose prompt is built and whose evaluation call returns a
  score \<open>s\<close>, for which the feedback function returns \<open>f\<close>: the handler returns the
  object with \<^verbatim>\<open>score\<close> \<open>s\<close>, \<^verbatim>\<open>feedback\<close> \<open>f\<close>, \<^verbatim>\<open>evaluated_answers\<close> the number of
  pairs of the map, and \<^verbatim>\<open>status\<close> \<^verbatim>\<open>"success"\<close>.
\<close>

theorem check_answers_success:
  assumes "kvs \<noteq> []" and "empty_answers kvs = Inr []"
      and "prepare_prompt_for_answercheck env (PDict kvs) = Inr prompt"
      and "get_evaluation env prompt = Inr s"
      and "get_feedback_for_score env s = Inr f"
  shows "check_answers env (PDict kvs) =
           (Inr (Return (PDict
              [(''score'', s),
               (''feedback'', f),
               (''evaluated_answers'', PInt (int (length kvs))),
               (''status'', PStr ''success'')])),
            [Prepare_prompt_for_answercheck, Get_evaluation, Get_feedback_for_score])"
  using assms by (simp add: check_answers_def run_defs)

theorem check_answers_success_witness:
  "check_answers demo_env
     (PDict [(''What is a closure?'', PStr ''A function with its environment''),
             (''What is a decorator?'', PStr ''A wrapper'')]) =
   (Inr (Return (PDict
      [(''score'', PInt 7),
       (''feedback'', PStr ''Good understanding''),
       (''evaluated_answers'', PInt 2),
       (''status'', PStr ''success'')])),
    [Prepare_prompt_for_answercheck, Get_evaluation, Get_feedback_for_score])"
proof -
  let ?kvs = "[(''What is a closure?'', PStr ''A function with its environment''),
               (''What is a decorator?'', PStr ''A wrapper'')]"
  have h1: "?kvs \<noteq> []" by simp
  have h2: "empty_answers ?kvs = Inr []"
    by (simp add: is_empty_answer_def strip_def isspace_def)
  have h3: "prepare_prompt_for_answercheck demo_env (PDict ?kvs) = Inr (PStr ''Score these answers'')"
    by (simp add: demo_env_def)
  have h4: "get_evaluation demo_env (PStr ''Score these answers'') = Inr (PInt 7)"
    by (simp add: demo_env_def)
  have h5: "get_feedback_for_score demo_env (PInt 7) = Inr (PStr ''Good understanding'')"
    by (simp add: demo_env_def)
  from check_answers_success [OF h1 h2 h3 h4 h5] show ?thesis by simp
qed

subsection \<open>C7: the reply of \<^verbatim>\<open>/questions\<close>\<close>

text \<open>
  C7. For every request to \<^verbatim>\<open>/questions\<close> that reaches the generation of the questions
  (a PDF, valid JSON data, a document with text) and whose evaluation call returns a list
  of questions: when the list is empty the handler returns (it does not raise) the
  response with status 204 and a message; otherwise it returns the object with the
  metadata, the questions, and \<^verbatim>\<open>count\<close> equal to the number of questions.
\<close>

theorem questions_reply:
  assumes "is_pdf (content_type file)"
      and "parse_json_data env data = Inr json_data"
      and "fitz_open env (contents file) = Inr pages" and "strip (concat pages) \<noteq> []"
      and "py_getitem json_data ''techStack'' = Inr tech_stack"
      and "py_getitem json_data ''difficultyLevel'' = Inr difficulty"
      and "py_getitem json_data ''questionCount'' = Inr question_count"
      and "prepare_prompt env (concat pages) tech_stack difficulty question_count = Inr prompt"
      and "py_len prompt = Inr n"
      and "get_questions env prompt = Inr (PList qs)"
  shows "langchain_questions env file data =
          (if qs = []
           then Inr (JSONResponse 204 (PDict
                  [(''message'',
                    PStr ''No questions could be generated. Try adjusting parameters.'')]))
           else Inr (Return (PDict
                  [(''metadata'', PDict
                      [(''file_size'', PInt (int (length (contents file)))),
                       (''file_name'', opt_str (filename file)),
                       (''json_data'', json_data)]),
                   (''questions'', PList qs),
                   (''count'', PInt (int (length qs)))])),
           [Fitz_open, Prepare_prompt, Get_questions])"
proof -
  from assms(3,4) have "extract_text env (contents file) = (Inr (concat pages), [Fitz_open])"
    by (rule extract_text_ok)
  with assms show ?thesis
    by (simp add: langchain_questions_def validate_file_type_def generate_questions_def
        run_defs)
qed

theorem questions_reply_witness:
  "langchain_questions demo_env resume_pdf (Some full_data) =
     (Inr (Return (PDict
        [(''metadata'', PDict
            [(''file_size'', PInt 11),
             (''file_name'', PStr ''cv.pdf''),
             (''json_data'', PDict [(''techStack'', PStr ''Python''),
                (''difficultyLevel'', PInt 3), (''questionCount'', PInt 5)])]),
         (''questions'', PList [PStr ''What is a closure?'', PStr ''What is a decorator?'']),
         (''count'', PInt 2)])),
      [Fitz_open, Prepare_prompt, Get_questions])
   \<and> langchain_questions silent_env resume_pdf (Some full_data) =
     (Inr (JSONResponse 204 (PDict
        [(''message'', PStr ''No questions could be generated. Try adjusting parameters.'')])),
      [Fitz_open, Prepare_prompt, Get_questions])"
proof -
  let ?json = "PDict [(''techStack'', PStr ''Python''), (''difficultyLevel'', PInt 3),
                      (''questionCount'', PInt 5)]"
  let ?pages = "[''Experienced Python developer. '', ''Ten years.'']"
  let ?prompt = "PStr (''Ask questions about this resume: '' @ concat ?pages)"
  have h1: "is_pdf (content_type resume_pdf)"
    by (simp add: is_pdf_def pdf_types_def resume_pdf_def)
  have h2: "parse_json_data demo_env (Some full_data) = Inr ?json"
    by (simp add: parse_json_data_def load_data_def required_fields_def demo_env_def
        demo_loads_def full_data_def)
  have h2': "parse_json_data silent_env (Some full_data) = Inr ?json"
    by (simp add: parse_json_data_def load_data_def required_fields_def silent_env_def
        demo_env_def demo_loads_def full_data_def)
  have h3: "fitz_open demo_env (contents resume_pdf) = Inr ?pages"
    by (simp add: demo_env_def demo_fitz_def resume_pdf_def)
  have h3': "fitz_open silent_env (contents resume_pdf) = Inr ?pages"
    by (simp add: silent_env_def demo_env_def demo_fitz_def resume_pdf_def)
  have h4: "strip (concat ?pages) \<noteq> []"
    by (simp add: strip_def isspace_def)
  have h5: "py_getitem ?json ''techStack'' = Inr (PStr ''Python'')" by simp
  have h6: "py_getitem ?json ''difficultyLevel'' = Inr (PInt 3)" by simp
  have h7: "py_getitem ?json ''questionCount'' = Inr (PInt 5)" by simp
  have h8: "prepare_prompt demo_env (concat ?pages) (PStr ''Python'') (PInt 3) (PInt 5) = Inr ?prompt"
    by (simp add: demo_env_def)
  have h8': "prepare_prompt silent_env (concat ?pages) (PStr ''Python'') (PInt 3) (PInt 5) = Inr ?prompt"
    by (simp add: silent_env_def demo_env_def)
  have h9: "py_len ?prompt = Inr (length (''Ask questions about this resume: '' @ concat ?pages))"
    by simp
  have h10: "get_questions demo_env ?prompt =
      Inr (PList [PStr ''What is a closure?'', PStr ''What is a decorator?''])"
    by (simp add: demo_env_def)
  have h10': "get_questions silent_env ?prompt = Inr (PList [])"
    by (simp add: silent_env_def demo_env_def)
  have a: "langchain_questions demo_env resume_pdf (Some full_data) =
     (Inr (Return (PDict
        [(''metadata'', PDict
            [(''file_size'', PInt 11),
             (''file_name'', PStr ''cv.pdf''),
             (''json_data'', ?json)]),
         (''questions'', PList [PStr ''What is a closure?'', PStr ''What is a decorator?'']),
         (''count'', PInt 2)])),
      [Fitz_open, Prepare_prompt, Get_questions])"
    using questions_reply [OF h1 h2 h3 h4 h5 h6 h7 h8 h9 h10]
    by (simp add: resume_pdf_def opt_str_def)
  have b: "langchain_questions silent_env resume_pdf (Some full_data) =
     (Inr (JSONResponse 204 (PDict
        [(''message'', PStr ''No questions could be generated. Try adjusting parameters.'')])),
      [Fitz_open, Prepare_prompt, Get_questions])"
    using questions_reply [OF h1 h2' h3' h4 h5 h6 h7 h8' h9 h10']
    by simp
  from a b show ?thesis by simp
qed

subsection \<open>C8: the result of the combined procedure\<close>

lemma validate_inputs_ok:
  "strip tech_stack \<noteq> [] \<Longrightarrow> 1 \<le> difficulty \<Longrightarrow> difficulty \<le> 5 \<Longrightarrow>
   1 \<le> question_count \<Longrightarrow> question_count \<le> 20 \<Longrightarrow> answers \<noteq> [] \<Longrightarrow>
   validate_inputs tech_stack difficulty question_count answers =
     (Inr (difficulty, question_count), [])"
  by (auto simp: validate_inputs_def check_range_def run_defs)

lemma validate_inputs_fails:
  "strip tech_stack = [] \<or> difficulty < 1 \<or> 5 < difficulty \<or> question_count < 1
     \<or> 20 < question_count \<or> answers = [] \<Longrightarrow>
   \<exists>detail. validate_inputs tech_stack difficulty question_count answers =
     (Inl (HTTPException 400 detail), [])"
  by (auto simp: validate_inputs_def check_range_def on_value_error_def run_defs)

text \<open>
  C8. For every request to \<^verbatim>\<open>/complete-evaluation\<close> that reaches the combined procedure
  (a PDF with text, valid inputs) and for which the procedure returns a result: when the
  result is tagged with the status \<^verbatim>\<open>"error"\<close> and carries an error message, the handler
  raises a 500 whose detail is that message; when it is tagged \<^verbatim>\<open>"success"\<close>, the handler
  returns the result unchanged.
\<close>

theorem evaluation_result_translated:
  assumes "is_pdf (content_type file)"
      and "fitz_open env (contents file) = Inr pages" and "strip (concat pages) \<noteq> []"
      and "strip tech_stack \<noteq> []"
      and "1 \<le> difficulty" and "difficulty \<le> 5"
      and "1 \<le> question_count" and "question_count \<le> 20"
      and "answers \<noteq> []"
      and "evaluate_candidate env (concat pages) tech_stack difficulty question_count answers
             = Inr result"
  shows "(py_getitem result ''status'' = Inr (PStr ''error'')
            \<and> py_getitem result ''error'' = Inr message \<longrightarrow>
          complete_evaluation env file tech_stack difficulty question_count answers =
            (Inl (HTTPException 500 message), [Fitz_open, Evaluate_candidate]))
       \<and> (py_getitem result ''status'' = Inr (PStr ''success'') \<longrightarrow>
          complete_evaluation env file tech_stack difficulty question_count answers =
            (Inr (Return result), [Fitz_open, Evaluate_candidate]))"
proof -
  from assms(2,3) have x: "extract_text env (contents file) = (Inr (concat pages), [Fitz_open])"
    by (rule extract_text_ok)
  from assms(4-9) have v: "validate_inputs tech_stack difficulty question_count answers =
      (Inr (difficulty, question_count), [])"
    by (rule validate_inputs_ok)
  from assms(1,10) x v show ?thesis
    by (simp add: complete_evaluation_def validate_file_type_def run_defs)
qed

theorem evaluation_result_translated_witness:
  "complete_evaluation failing_env resume_pdf ''Python'' 3 5 closure_answer =
     (Inl (HTTPException 500 (PStr ''backend unavailable'')), [Fitz_open, Evaluate_candidate])
   \<and> complete_evaluation demo_env resume_pdf ''Python'' 3 5 closure_answer =
     (Inr (Return (PDict [(''status'', PStr ''success''), (''score'', PInt 7)])),
      [Fitz_open, Evaluate_candidate])"
proof -
  let ?pages = "[''Experienced Python developer. '', ''Ten years.'']"
  let ?bad = "PDict [(''status'', PStr ''error''), (''error'', PStr ''backend unavailable'')]"
  let ?good = "PDict [(''status'', PStr ''success''), (''score'', PInt 7)]"
  have h1: "is_pdf (content_type resume_pdf)"
    by (simp add: is_pdf_def pdf_types_def resume_pdf_def)
  have h2: "fitz_open demo_env (contents resume_pdf) = Inr ?pages"
    by (simp add: demo_env_def demo_fitz_def resume_pdf_def)
  have h2': "fitz_open failing_env (contents resume_pdf) = Inr ?pages"
    by (simp add: failing_env_def demo_env_def demo_fitz_def resume_pdf_def)
  have h3: "strip (concat ?pages) \<noteq> []" by (simp add: strip_def isspace_def)
  have h4: "strip ''Python'' \<noteq> []" by (simp add: strip_def isspace_def)
  have h5: "(1::int) \<le> 3" "(3::int) \<le> 5" "(1::int) \<le> 5" "(5::int) \<le> 20" by simp_all
  have h9: "closure_answer \<noteq> []" by (simp add: closure_answer_def)
  have h10: "evaluate_candidate demo_env (concat ?pages) ''Python'' 3 5 closure_answer = Inr ?good"
    by (simp add: demo_env_def)
  have h10': "evaluate_candidate failing_env (concat ?pages) ''Python'' 3 5 closure_answer = Inr ?bad"
    by (simp add: failing_env_def demo_env_def)
  have a: "complete_evaluation failing_env resume_pdf ''Python'' 3 5 closure_answer =
     (Inl (HTTPException 500 (PStr ''backend unavailable'')), [Fitz_open, Evaluate_candidate])"
    using evaluation_result_translated [OF h1 h2' h3 h4 h5 h9 h10', of "PStr ''backend unavailable''"]
    by simp
  have b: "complete_evaluation demo_env resume_pdf ''Python'' 3 5 closure_answer =
     (Inr (Return ?good), [Fitz_open, Evaluate_candidate])"
    using evaluation_result_translated [OF h1 h2 h3 h4 h5 h9 h10]
    by simp
  from a b show ?thesis by simp
qed

subsection \<open>C2: a PDF without text\<close>

text \<open>
  For every callee: when the text of the document is empty or all whitespace, the
  extraction block ends with the status 500, in both handlers that contain it.
\<close>

lemma blank_document_gives_500:
  assumes "is_pdf (content_type file)"
      and "fitz_open env (contents file) = Inr pages" and "strip (concat pages) = []"
  shows "status_code (fst (complete_evaluation env file tech_stack difficulty question_count
           answers)) = 500"
    and "parse_json_data env data = Inr json_data \<Longrightarrow>
         status_code (fst (langchain_questions env file data)) = 500"
  using assms extract_text_blank [OF assms(2,3)]
  by (simp_all add: complete_evaluation_def langchain_questions_def validate_file_type_def
      run_defs)

text \<open>
  C2 says that a PDF whose extracted text is empty or whitespace only ends both
  \<^verbatim>\<open>/questions\<close> and \<^verbatim>\<open>/complete-evaluation\<close> with the status 422. The handlers raise
  that status inside the \<^verbatim>\<open>try\<close> block of the extraction, whose clause
  \<^verbatim>\<open>except Exception\<close> catches it and raises a 500 in its place. Here is a scanned
  document of two pages, one empty and one holding a space, with valid parameters.
\<close>

theorem empty_text_pdf_gives_500:
  "fitz_open demo_env (contents scanned_pdf) = Inr [[], '' '']
   \<and> status_code (fst (langchain_questions demo_env scanned_pdf (Some full_data))) = 500
   \<and> snd (langchain_questions demo_env scanned_pdf (Some full_data)) = [Fitz_open]
   \<and> status_code (fst (complete_evaluation demo_env scanned_pdf ''Python'' 3 5 closure_answer))
       = 500
   \<and> snd (complete_evaluation demo_env scanned_pdf ''Python'' 3 5 closure_answer) = [Fitz_open]"
  by (simp add: langchain_questions_def complete_evaluation_def validate_file_type_def
      is_pdf_def pdf_types_def parse_json_data_def load_data_def required_fields_def
      extract_text_def failed_to_process_def strip_def isspace_def run_defs demo_defs)

subsection \<open>C1: validation and the calls\<close>

text \<open>
  C1, as stated: in all three operations every validation failure ends the request with
  a 400 before the text extractor or the evaluation module is called, and a difficulty
  out of range in \<^verbatim>\<open>/complete-evaluation\<close> never reaches the extraction. Four requests
  show otherwise. The handler of \<^verbatim>\<open>/complete-evaluation\<close> extracts the text first and
  validates afterwards: with the difficulty 0 the extractor has been called when the 400
  is raised, and with a file that PyMuPDF cannot open the same request ends with a 500.
  In \<^verbatim>\<open>/questions\<close> the data \<^verbatim>\<open>5\<close> decode to a number, which holds none of the required
  fields; the membership test raises a \<^verbatim>\<open>TypeError\<close>, which the clause
  \<^verbatim>\<open>except json.JSONDecodeError\<close> does not catch, and the request ends with a 500. In
  \<^verbatim>\<open>/check-answers\<close> a map with a blank answer and a number ends with a 500.
\<close>

theorem invalid_requests_not_400_before_calls:
  "complete_evaluation demo_env resume_pdf ''Python'' 0 5 closure_answer =
     (Inl (HTTPException 400 (PStr ''Difficulty must be an integer between 1 and 5'')),
      [Fitz_open])
   \<and> complete_evaluation demo_env broken_pdf ''Python'' 0 5 closure_answer =
     (Inl (HTTPException 500 (PStr ''Failed to process PDF: cannot open broken document'')),
      [Fitz_open])
   \<and> json_loads demo_env ''5'' = Inr (PInt 5)
   \<and> langchain_questions demo_env resume_pdf (Some ''5'') =
     (Inl (HTTPException 500 (PStr (''An unexpected error occurred: argument of type ''
        @ quote ''int'' @ '' is not iterable''))), [])
   \<and> check_answers demo_env
       (PDict [(''What is a closure?'', PStr ''   ''), (''Years of experience?'', PInt 8)]) =
     (Inl (HTTPException 500 (PStr (''An unexpected error occurred: '' @ quote ''int''
        @ '' object has no attribute '' @ quote ''strip''))), [])"
  by (simp add: complete_evaluation_def langchain_questions_def check_answers_def
      validate_file_type_def is_pdf_def pdf_types_def parse_json_data_def load_data_def
      required_fields_def extract_text_def failed_to_process_def strip_def isspace_def
      validate_inputs_def check_range_def on_value_error_def closure_answer_def
      is_empty_answer_def run_defs demo_defs)

text \<open>
  C1, amended. In \<^verbatim>\<open>/questions\<close>, for a file that passes the check of its type, the
  request ends with a 400 before any callee is called whenever the data are absent or
  empty, \<^verbatim>\<open>json.loads\<close> raises a \<^verbatim>\<open>JSONDecodeError\<close> on them, they decode to a falsy
  value, or they decode to an object, an array or a string in which one of the required
  fields is not found. In
  \<^verbatim>\<open>/check-answers\<close>, the request ends with a 400 before any callee is called whenever
  the payload is not a map, is the empty map, or is a map that holds no value that is
  truthy and not a string and holds at least one empty answer. In
  \<^verbatim>\<open>/complete-evaluation\<close> the text is extracted before the inputs are validated: for a
  PDF file whose extraction yields text, every validation failure (a blank tech stack, a
  difficulty outside 1..5, a question count outside 1..20, no answers) ends the request
  with a 400 after the call of the extractor and before any call of the evaluation
  module.
\<close>

theorem validation_failures_and_calls:
  "(is_pdf (content_type file)
      \<and> (data = None \<or> data = Some []
          \<or> (\<exists>s. data = Some s \<and> s \<noteq> []
                \<and> ((\<exists>e. json_loads env s = Inl e \<and> err_class e = JSONDecodeError)
                    \<or> (\<exists>v. json_loads env s = Inr v
                          \<and> (\<not> truthy v
                              \<or> (\<exists>f \<in> set required_fields. py_in f v = Inr False)))))) \<longrightarrow>
      (\<exists>detail. langchain_questions env file data = (Inl (HTTPException 400 detail), [])))
   \<and> (\<not> is_dict json_data \<or> \<not> truthy json_data
        \<or> ((\<forall>(q, a) \<in> set (items json_data). truthy a \<longrightarrow> is_str a)
            \<and> (\<exists>(q, a) \<in> set (items json_data). empty_value a)) \<longrightarrow>
      (\<exists>detail. check_answers env json_data = (Inl (HTTPException 400 detail), [])))
   \<and> (is_pdf (content_type upload) \<and> fitz_open env (contents upload) = Inr pages
        \<and> strip (concat pages) \<noteq> []
        \<and> (strip tech_stack = [] \<or> difficulty < 1 \<or> 5 < difficulty \<or> question_count < 1
             \<or> 20 < question_count \<or> answers = []) \<longrightarrow>
      (\<exists>detail. complete_evaluation env upload tech_stack difficulty question_count answers =
         (Inl (HTTPException 400 detail), [Fitz_open])))"
proof (intro conjI impI)
  assume a: "is_pdf (content_type file)
      \<and> (data = None \<or> data = Some []
          \<or> (\<exists>s. data = Some s \<and> s \<noteq> []
                \<and> ((\<exists>e. json_loads env s = Inl e \<and> err_class e = JSONDecodeError)
                    \<or> (\<exists>v. json_loads env s = Inr v
                          \<and> (\<not> truthy v
                              \<or> (\<exists>f \<in> set required_fields. py_in f v = Inr False))))))"
  then have pdf: "is_pdf (content_type file)" by simp
  have "\<exists>detail. parse_json_data env data = Inl (HTTPException 400 detail)"
  proof -
    from a consider
        (absent) "data = None \<or> data = Some []"
      | (raises) s e where "data = Some s" "s \<noteq> []" "json_loads env s = Inl e"
          "err_class e = JSONDecodeError"
      | (falsy) s v where "data = Some s" "s \<noteq> []" "json_loads env s = Inr v" "\<not> truthy v"
      | (lacks) s v f where "data = Some s" "s \<noteq> []" "json_loads env s = Inr v" "truthy v"
          "f \<in> set required_fields" "py_in f v = Inr False"
      by blast
    then show ?thesis
    proof cases
      case absent
      then show ?thesis using parse_json_data_absent by blast
    next
      case raises
      then show ?thesis by (simp add: parse_json_data_raises)
    next
      case falsy
      then show ?thesis by (simp add: parse_json_data_falsy)
    next
      case lacks
      then have "f \<in> set (filter (\<lambda>f. py_in f v = Inr False) required_fields)" by simp
      then obtain g rest where
        "filter (\<lambda>f. py_in f v = Inr False) required_fields = g # rest"
        by (cases "filter (\<lambda>f. py_in f v = Inr False) required_fields") auto
      with lacks show ?thesis by (simp add: parse_json_data_lacks)
    qed
  qed
  then obtain detail where "parse_json_data env data = Inl (HTTPException 400 detail)" ..
  with pdf have "langchain_questions env file data = (Inl (HTTPException 400 detail), [])"
    by (simp add: questions_data_rejected)
  then show "\<exists>detail. langchain_questions env file data =
      (Inl (HTTPException 400 detail), [])" ..
next
  assume a: "\<not> is_dict json_data \<or> \<not> truthy json_data
        \<or> ((\<forall>(q, a) \<in> set (items json_data). truthy a \<longrightarrow> is_str a)
            \<and> (\<exists>(q, a) \<in> set (items json_data). empty_value a))"
  show "\<exists>detail. check_answers env json_data = (Inl (HTTPException 400 detail), [])"
  proof (cases "is_dict json_data \<and> truthy json_data")
    case False
    then show ?thesis by (auto simp: check_answers_def run_defs)
  next
    case True
    with a have all: "\<forall>(q, a) \<in> set (items json_data). truthy a \<longrightarrow> is_str a"
      and some: "\<exists>(q, a) \<in> set (items json_data). empty_value a"
      by blast+
    let ?empty = "filter (\<lambda>(q, a). empty_value a) (items json_data)"
    from all have e: "empty_answers (items json_data) = Inr (map fst ?empty)"
      by (rule empty_answers_filter)
    from some have "?empty \<noteq> []" by (auto simp: filter_empty_conv)
    with True e show ?thesis by (simp add: check_answers_def run_defs)
  qed
next
  assume a: "is_pdf (content_type upload) \<and> fitz_open env (contents upload) = Inr pages
        \<and> strip (concat pages) \<noteq> []
        \<and> (strip tech_stack = [] \<or> difficulty < 1 \<or> 5 < difficulty \<or> question_count < 1
             \<or> 20 < question_count \<or> answers = [])"
  then have x: "extract_text env (contents upload) = (Inr (concat pages), [Fitz_open])"
    using extract_text_ok by blast
  from a obtain detail where
    "validate_inputs tech_stack difficulty question_count answers =
       (Inl (HTTPException 400 detail), [])"
    using validate_inputs_fails by blast
  with a x have "complete_evaluation env upload tech_stack difficulty question_count answers =
      (Inl (HTTPException 400 detail), [Fitz_open])"
    by (simp add: complete_evaluation_def validate_file_type_def run_defs)
  then show "\<exists>detail. complete_evaluation env upload tech_stack difficulty question_count
      answers = (Inl (HTTPException 400 detail), [Fitz_open])" ..
qed

theorem validation_failures_and_calls_witness:
  "(\<exists>detail. langchain_questions demo_env resume_pdf None =
       (Inl (HTTPException 400 detail), []))
   \<and> (\<exists>detail. langchain_questions demo_env resume_pdf (Some ''not json'') =
       (Inl (HTTPException 400 detail), []))
   \<and> (\<exists>detail. langchain_questions demo_env resume_pdf (Some ''{}'') =
       (Inl (HTTPException 400 detail), []))
   \<and> (\<exists>detail. langchain_questions demo_env resume_pdf (Some partial_data) =
       (Inl (HTTPException 400 detail), []))
   \<and> (\<exists>detail. check_answers demo_env (PList [PStr ''A function'']) =
       (Inl (HTTPException 400 detail), []))
   \<and> (\<exists>detail. check_answers demo_env (PDict []) = (Inl (HTTPException 400 detail), []))
   \<and> (\<exists>detail. check_answers demo_env
         (PDict [(''What is a closure?'', PStr ''A function''),
                 (''What is a decorator?'', PStr '' '')]) =
       (Inl (HTTPException 400 detail), []))
   \<and> (\<exists>detail. complete_evaluation demo_env resume_pdf ''Python'' 3 21 closure_answer =
         (Inl (HTTPException 400 detail), [Fitz_open]))"
proof -
  let ?pages = "[''Experienced Python developer. '', ''Ten years.'']"
  let ?partial = "PDict [(''techStack'', PStr ''Python''), (''questionCount'', PInt 5)]"
  let ?answers = "PDict [(''What is a closure?'', PStr ''A function''),
                         (''What is a decorator?'', PStr '' '')]"
  have pdf: "is_pdf (content_type resume_pdf)"
    by (simp add: is_pdf_def pdf_types_def resume_pdf_def)
  have d2: "''not json'' \<noteq> [] \<and> json_loads demo_env ''not json'' =
      Inl (PyErr JSONDecodeError ''Expecting value: line 1 column 1 (char 0)'')
      \<and> err_class (PyErr JSONDecodeError ''Expecting value: line 1 column 1 (char 0)'')
          = JSONDecodeError"
    by (simp add: demo_env_def demo_loads_def)
  have d3: "''{}'' \<noteq> [] \<and> json_loads demo_env ''{}'' = Inr (PDict []) \<and> \<not> truthy (PDict [])"
    by (simp add: demo_env_def demo_loads_def)
  have d4: "partial_data \<noteq> [] \<and> json_loads demo_env partial_data = Inr ?partial
      \<and> ''difficultyLevel'' \<in> set required_fields
      \<and> py_in ''difficultyLevel'' ?partial = Inr False"
    by (simp add: demo_env_def demo_loads_def partial_data_def required_fields_def)
  have c1: "\<not> is_dict (PList [PStr ''A function''])" by simp
  have c2: "\<not> truthy (PDict [])" by simp
  have c3: "(\<forall>(q, a) \<in> set (items ?answers). truthy a \<longrightarrow> is_str a)
      \<and> (\<exists>(q, a) \<in> set (items ?answers). empty_value a)"
    by (simp add: strip_def isspace_def)
  have e1: "fitz_open demo_env (contents resume_pdf) = Inr ?pages"
    by (simp add: demo_env_def demo_fitz_def resume_pdf_def)
  have e2: "strip (concat ?pages) \<noteq> []" by (simp add: strip_def isspace_def)
  have e3: "(20::int) < 21" by simp
  have a1: "\<exists>detail. langchain_questions demo_env resume_pdf None =
      (Inl (HTTPException 400 detail), [])"
    using validation_failures_and_calls [of resume_pdf None demo_env] pdf by blast
  have a2: "\<exists>detail. langchain_questions demo_env resume_pdf (Some ''not json'') =
      (Inl (HTTPException 400 detail), [])"
    using validation_failures_and_calls [of resume_pdf "Some ''not json''" demo_env] pdf d2
    by blast
  have a3: "\<exists>detail. langchain_questions demo_env resume_pdf (Some ''{}'') =
      (Inl (HTTPException 400 detail), [])"
    using validation_failures_and_calls [of resume_pdf "Some ''{}''" demo_env] pdf d3
    by blast
  have a4: "\<exists>detail. langchain_questions demo_env resume_pdf (Some partial_data) =
      (Inl (HTTPException 400 detail), [])"
    using validation_failures_and_calls [of resume_pdf "Some partial_data" demo_env] pdf d4
    by blast
  have b1: "\<exists>detail. check_answers demo_env (PList [PStr ''A function'']) =
      (Inl (HTTPException 400 detail), [])"
    using validation_failures_and_calls [of _ _ demo_env "PList [PStr ''A function'']"] c1
    by blast
  have b2: "\<exists>detail. check_answers demo_env (PDict []) = (Inl (HTTPException 400 detail), [])"
    using validation_failures_and_calls [of _ _ demo_env "PDict []"] c2 by blast
  have b3: "\<exists>detail. check_answers demo_env ?answers = (Inl (HTTPException 400 detail), [])"
    using validation_failures_and_calls [of _ _ demo_env ?answers] c3 by blast
  have c: "\<exists>detail. complete_evaluation demo_env resume_pdf ''Python'' 3 21 closure_answer =
      (Inl (HTTPException 400 detail), [Fitz_open])"
    using validation_failures_and_calls [of _ _ demo_env _ resume_pdf ?pages "''Python''" 3 21
        closure_answer] pdf e1 e2 e3
    by blast
  from a1 a2 a3 a4 b1 b2 b3 c show ?thesis by blast
qed

end
